theory Spec2Isabelle
  imports Complex_Main "HOL-Library.AList"
begin

section \<open>Values shared by the modules\<close>

text \<open>
  JavaScript truthiness of a numeric property that may be absent: \<open>undefined\<close> and
  \<open>0\<close> are falsy, every other number is truthy.
\<close>

definition truthy :: "'a::zero option \<Rightarrow> bool" where
  "truthy v = (case v of None \<Rightarrow> False | Some n \<Rightarrow> n \<noteq> 0)"

text \<open>
  A line of a line-oriented JSON file: blank, not parsable by \<open>JSON.parse\<close>, or the
  object it parses to.
\<close>

datatype 'e line = Blank | Garbage | Json 'e

text \<open>
  The three functions of Node's \<open>path\<close> module that the sources call, for POSIX paths
  without a trailing separator.
\<close>

definition path_basename :: "string \<Rightarrow> string" where
  "path_basename p = rev (takeWhile (\<lambda>c. c \<noteq> CHR ''/'') (rev p))"

definition path_dirname :: "string \<Rightarrow> string" where
  "path_dirname p =
     (if CHR ''/'' \<notin> set p then ''.''
      else let d = rev (drop 1 (dropWhile (\<lambda>c. c \<noteq> CHR ''/'') (rev p)))
           in if d = [] then ''/'' else d)"

definition path_join :: "string \<Rightarrow> string \<Rightarrow> string" where
  "path_join d f = (if d = ''.'' then f else if d = ''/'' then d @ f else d @ ''/'' @ f)"

section \<open>Trimming of the log files: \<open>trimLogs\<close>\<close>

text \<open>
  An event of a log file. \<open>time\<close> and \<open>timestamp\<close> are the millisecond readings the
  trackers write (\<open>Date.now()\<close>), \<open>logFile\<close> is the index the CLI tracker gives the
  tailed file (\<open>logFile: index\<close> in \<open>CLILogsTracker\<close>); each may be absent. All other
  properties of the object live in the record's extension and are carried along by the
  spread \<open>{...event, time: eventTime}\<close>.
\<close>

record event =
  time :: "int option"
  timestamp :: "int option"
  logFile :: "nat option"

record log_status =
  status_type :: string
  fileLocation :: string
  count :: nat
  trimmedFileLocation :: "string option"

text \<open>\<open>parseInt(event.time || event.timestamp || Date.now())\<close>, with \<open>now\<close> the clock reading.\<close>

definition eventTime :: "int \<Rightarrow> 'a event_scheme \<Rightarrow> int" where
  "eventTime now e =
     (case time e of
        Some t \<Rightarrow> if t \<noteq> 0 then t
                  else (case timestamp e of Some u \<Rightarrow> if u \<noteq> 0 then u else now | None \<Rightarrow> now)
      | None \<Rightarrow> (case timestamp e of Some u \<Rightarrow> if u \<noteq> 0 then u else now | None \<Rightarrow> now))"

definition absolute_threshold :: int where
  "absolute_threshold = 1000000000000"

text \<open>The body of the first \<open>events.map\<close>: the event with its session-relative time.\<close>

definition to_relative :: "int \<Rightarrow> int \<Rightarrow> int \<Rightarrow> 'a event_scheme \<Rightarrow> 'a event_scheme" where
  "to_relative startMS clientStartDate now e =
     (let eventTime1 = eventTime now e - startMS;
          eventTime2 = (if eventTime1 > absolute_threshold
                        then eventTime1 - clientStartDate else eventTime1)
      in e\<lparr>time := Some eventTime2\<rparr>)"

text \<open>\<open>now i\<close> is the reading of \<open>Date.now()\<close> while the \<open>i\<close>-th event is mapped.\<close>

definition relativeEvents ::
  "(nat \<Rightarrow> int) \<Rightarrow> int \<Rightarrow> int \<Rightarrow> 'a event_scheme list \<Rightarrow> 'a event_scheme list" where
  "relativeEvents now startMS clientStartDate events =
     map (\<lambda>(i, e). to_relative startMS clientStartDate (now i) e) (enumerate 0 events)"

text \<open>The predicate of both filters: \<open>event.time >= 0 && event.time <= duration\<close>.\<close>

definition in_window :: "int \<Rightarrow> 'a event_scheme \<Rightarrow> bool" where
  "in_window duration e = (case time e of Some t \<Rightarrow> 0 \<le> t \<and> t \<le> duration | None \<Rightarrow> False)"

text \<open>
  \<open>fileMap\<close> is an object used as a dictionary: its own properties in insertion order.
  \<open>Object.keys(fileMap).length\<close> counts the distinct keys.
\<close>

type_synonym fileMap = "(nat \<times> nat) list"

definition keys_length :: "fileMap \<Rightarrow> nat" where
  "keys_length m = length (remdups (map fst m))"

text \<open>The body of the anonymizing \<open>map\<close>, with the dictionary passed through.\<close>

definition anonymize_event :: "fileMap \<Rightarrow> 'a event_scheme \<Rightarrow> fileMap \<times> 'a event_scheme" where
  "anonymize_event m e =
     (case logFile e of
        None \<Rightarrow> (m, e)
      | Some k \<Rightarrow>
          if k = 0 then (m, e)
          else
            let anonymizedName = (case map_of m k of Some v \<Rightarrow> v | None \<Rightarrow> keys_length m + 1);
                m' = (if \<not> truthy (map_of m k) then AList.update k anonymizedName m else m)
            in (m', e\<lparr>logFile := Some anonymizedName\<rparr>))"

fun anonymize :: "fileMap \<Rightarrow> 'a event_scheme list \<Rightarrow> fileMap \<times> 'a event_scheme list" where
  "anonymize m [] = (m, [])"
| "anonymize m (e # es) =
     (let (m1, e') = anonymize_event m e;
          (m2, es') = anonymize m1 es
      in (m2, e' # es'))"

text \<open>From the parsed events of one source to the events that are written.\<close>

definition trim_events ::
  "string \<Rightarrow> (nat \<Rightarrow> int) \<Rightarrow> int \<Rightarrow> int \<Rightarrow> int \<Rightarrow> 'a event_scheme list \<Rightarrow> 'a event_scheme list" where
  "trim_events typ now startMS endMS clientStartDate events =
     (let relative = relativeEvents now startMS clientStartDate events;
          duration = endMS - startMS
      in if typ = ''cli''
         then snd (anonymize [] (filter (in_window duration) relative))
         else filter (in_window duration) relative)"

text \<open>
  The file system as \<open>trimLogs\<close> sees it: the lines of each existing file. The second
  component of the loop state lists every call of \<open>jsonl.write\<close>: the path and the events.
\<close>

type_synonym 'a files = "string \<rightharpoonup> 'a event_scheme line list"

type_synonym 'a trim_state = "'a files \<times> (string \<times> 'a event_scheme list) list"

definition parsed_events :: "'e line list \<Rightarrow> 'e list" where
  "parsed_events lines = concat (map (\<lambda>l. case l of Json e \<Rightarrow> [e] | _ \<Rightarrow> []) lines)"

definition trim_status ::
  "(nat \<Rightarrow> int) \<Rightarrow> int \<Rightarrow> int \<Rightarrow> int \<Rightarrow> string \<Rightarrow> 'a trim_state \<Rightarrow> log_status
     \<Rightarrow> log_status \<times> 'a trim_state" where
  "trim_status now startMS endMS clientStartDate clipId st status =
     (case fst st (fileLocation status) of
        None \<Rightarrow> (status, st)
      | Some lines \<Rightarrow>
          let events = parsed_events lines;
              filteredEvents =
                trim_events (status_type status) now startMS endMS clientStartDate events
          in if filteredEvents \<noteq> []
             then
               let trimmedFileName = clipId @ ''_'' @ path_basename (fileLocation status);
                   p = path_join (path_dirname (fileLocation status)) trimmedFileName
               in (status\<lparr>count := length filteredEvents, trimmedFileLocation := Some p\<rparr>,
                   ((fst st)(p \<mapsto> map Json filteredEvents), snd st @ [(p, filteredEvents)]))
             else (status\<lparr>count := 0\<rparr>, st))"

text \<open>The \<open>for\<close> loop over the statuses; \<open>now n\<close> is the clock while the \<open>n\<close>-th one is read.\<close>

fun trim_loop ::
  "(nat \<Rightarrow> nat \<Rightarrow> int) \<Rightarrow> int \<Rightarrow> int \<Rightarrow> int \<Rightarrow> string \<Rightarrow> nat \<Rightarrow> 'a trim_state
     \<Rightarrow> log_status list \<Rightarrow> log_status list \<times> 'a trim_state" where
  "trim_loop now startMS endMS clientStartDate clipId n st [] = ([], st)"
| "trim_loop now startMS endMS clientStartDate clipId n st (status # rest) =
     (let (status', st1) = trim_status (now n) startMS endMS clientStartDate clipId st status;
          (rest', st2) = trim_loop now startMS endMS clientStartDate clipId (Suc n) st1 rest
      in (status' # rest', st2))"

definition trimLogs ::
  "'a files \<Rightarrow> (nat \<Rightarrow> nat \<Rightarrow> int) \<Rightarrow> log_status list \<Rightarrow> int \<Rightarrow> int \<Rightarrow> int \<Rightarrow> string
     \<Rightarrow> log_status list \<times> 'a trim_state" where
  "trimLogs fs now groupLogStatuses startMS endMS clientStartDate clipId =
     trim_loop now startMS endMS clientStartDate clipId 0 (fs, [])
       (filter (\<lambda>status. count status > 0) groupLogStatuses)"

section \<open>Routing of the extension's events: \<open>WebTrackerManager\<close>\<close>

text \<open>
  A tab as the manager keeps it; \<open>url\<close> and \<open>previousUrl\<close> may be \<open>undefined\<close>. The
  tabs are stored under their numeric id.
\<close>

record tab =
  url :: "string option"
  previousUrl :: "string option"

type_synonym tabs = "nat \<rightharpoonup> tab"

record event_payload =
  tabId :: "nat option"

record web_event =
  event_type :: string
  payload :: "event_payload option"

text \<open>
  The manager's fields that dispatching reads. \<open>patternsByCallback\<close> is a \<open>Map\<close>: its
  entries in insertion order, one per callback; callbacks are named by a number.
\<close>

record manager =
  tabs :: tabs
  patternsByCallback :: "(nat \<times> string) list"
  globalTabsAndNavigationCallbacks :: "nat list"

text \<open>\<open>Map.set\<close> and \<open>Map.delete\<close> on \<open>patternsByCallback\<close>.\<close>

definition subscribe :: "string \<Rightarrow> nat \<Rightarrow> 'a manager_scheme \<Rightarrow> 'a manager_scheme" where
  "subscribe pattern callback m =
     m\<lparr>patternsByCallback := AList.update callback pattern (patternsByCallback m)\<rparr>"

definition unsubscribe :: "nat \<Rightarrow> 'a manager_scheme \<Rightarrow> 'a manager_scheme" where
  "unsubscribe callback m =
     m\<lparr>patternsByCallback := AList.delete callback (patternsByCallback m)\<rparr>"

text \<open>
  The per-dispatch cache is the object literal \<open>{}\<close>. Reading \<open>cache[pattern]\<close> finds
  an own property, or else a property inherited from \<open>Object.prototype\<close>; only the own
  properties are written by \<open>#shouldSendEvent\<close>.
\<close>

definition Object_prototype_properties :: "string list" where
  "Object_prototype_properties =
     [''constructor'', ''__defineGetter__'', ''__defineSetter__'', ''hasOwnProperty'',
      ''__lookupGetter__'', ''__lookupSetter__'', ''isPrototypeOf'', ''propertyIsEnumerable'',
      ''toString'', ''valueOf'', ''__proto__'', ''toLocaleString'']"

datatype cache_value = Own bool | Inherited

type_synonym cache = "(string \<times> bool) list"

definition cache_get :: "cache \<Rightarrow> string \<Rightarrow> cache_value option" where
  "cache_get c pattern =
     (case map_of c pattern of
        Some b \<Rightarrow> Some (Own b)
      | None \<Rightarrow> if pattern \<in> set Object_prototype_properties then Some Inherited else None)"

text \<open>Truthiness of what \<open>#shouldSendEvent\<close> returns: inherited properties are functions or objects.\<close>

definition cache_truthy :: "cache_value \<Rightarrow> bool" where
  "cache_truthy v = (case v of Own b \<Rightarrow> b | Inherited \<Rightarrow> True)"

datatype dispatch_error = TypeError

text \<open>
  \<open>#shouldSendEvent\<close>. \<open>verifyPattern\<close> (from \<open>helpers.js\<close>) is a parameter. Reading
  \<open>event.payload.tabId\<close> of an event without payload throws.
\<close>

definition shouldSendEvent ::
  "(string \<Rightarrow> string option \<Rightarrow> bool) \<Rightarrow> tabs \<Rightarrow> string \<Rightarrow> 'a web_event_scheme \<Rightarrow> cache
     \<Rightarrow> dispatch_error + bool \<times> cache" where
  "shouldSendEvent verifyPattern tbs pattern event c =
     (case cache_get c pattern of
        Some v \<Rightarrow> Inr (cache_truthy v, c)
      | None \<Rightarrow>
          (case payload event of
             None \<Rightarrow> Inl TypeError
           | Some pl \<Rightarrow>
               (case (case tabId pl of None \<Rightarrow> None | Some i \<Rightarrow> tbs i) of
                  Some tb \<Rightarrow>
                    let urlMatches = verifyPattern pattern (url tb);
                        previousUrlMatches = verifyPattern pattern (previousUrl tb)
                    in Inr (urlMatches \<or> previousUrlMatches,
                            AList.update pattern (urlMatches \<or> previousUrlMatches) c)
                | None \<Rightarrow> Inr (False, AList.update pattern False c))))"

definition navigation_types :: "string list" where
  "navigation_types =
     [''INITIAL_TABS'', ''TAB_REMOVED'', ''TAB_ACTIVATED'', ''NAVIGATION_STARTED'',
      ''NAVIGATION_COMPLETED'']"

text \<open>
  The \<open>forEach\<close> of the default branch: the callbacks that are called, in order, and the
  exception that ends the iteration, if any. An empty pattern is falsy and is skipped.
\<close>

fun dispatch_callbacks ::
  "(string \<Rightarrow> string option \<Rightarrow> bool) \<Rightarrow> tabs \<Rightarrow> 'a web_event_scheme \<Rightarrow> cache
     \<Rightarrow> (nat \<times> string) list \<Rightarrow> nat list \<times> dispatch_error option" where
  "dispatch_callbacks verifyPattern tbs event c [] = ([], None)"
| "dispatch_callbacks verifyPattern tbs event c ((callback, pattern) # rest) =
     (if pattern = [] then dispatch_callbacks verifyPattern tbs event c rest
      else
        (case shouldSendEvent verifyPattern tbs pattern event c of
           Inl err \<Rightarrow> ([], Some err)
         | Inr (send, c') \<Rightarrow>
             (let (called, err) = dispatch_callbacks verifyPattern tbs event c' rest
              in (if send then callback # called else called, err))))"

text \<open>
  \<open>#handleEvent\<close>; \<open>updateTabsState\<close> (from \<open>helpers.js\<close>) is a parameter. The result is
  the manager, the callbacks that received the event and the exception thrown, if any.
\<close>

definition handleEvent ::
  "(string \<Rightarrow> string option \<Rightarrow> bool) \<Rightarrow> ('a web_event_scheme \<Rightarrow> tabs \<Rightarrow> tabs)
     \<Rightarrow> 'b manager_scheme \<Rightarrow> 'a web_event_scheme
     \<Rightarrow> 'b manager_scheme \<times> nat list \<times> dispatch_error option" where
  "handleEvent verifyPattern updateTabsState m event =
     (let m' = m\<lparr>tabs := updateTabsState event (tabs m)\<rparr>
      in if event_type event \<in> set navigation_types
         then (m', globalTabsAndNavigationCallbacks m', None)
         else (m', dispatch_callbacks verifyPattern (tabs m') event [] (patternsByCallback m')))"

section \<open>The telemetry sampler: \<open>PerformanceTracker\<close>\<close>

text \<open>
  The metric groups of a sample. Byte and tick counters are naturals; percentages, rates
  and averages are JavaScript numbers obtained by division and are kept as exact
  rationals. \<open>os.totalmem()\<close> is positive on every host. Of the process group the three
  properties present in both the reading and its fallback are kept.
\<close>

record cpu_times =
  user :: nat
  nice :: nat
  sys :: nat
  idle :: nat
  irq :: nat

record system_metrics =
  totalMemory :: nat
  freeMemory :: nat
  usedMemory :: int
  memoryUsagePercent :: rat
  cpuCount :: nat
  totalIdle :: nat
  totalTick :: nat

record process_metrics =
  cpu :: rat
  memory :: nat
  process_pid :: nat

record network_metrics =
  bytesReceived :: nat
  bytesSent :: nat
  bytesReceivedPerSec :: rat
  bytesSentPerSec :: rat
  mbReceivedPerSec :: rat
  mbSentPerSec :: rat

record network_stats =
  stats_bytesReceived :: nat
  stats_bytesSent :: nat
  stats_timestamp :: int

record sample =
  sample_timestamp :: int
  elapsedMs :: int
  system :: system_metrics
  process :: process_metrics
  network :: network_metrics

record tracker =
  interval :: bool
  samples :: "sample list"
  startTime :: "int option"
  tracker_pid :: nat
  lastNetworkStats :: "network_stats option"
  performanceFile :: "string option"

datatype platform = Darwin | Linux | OtherPlatform

text \<open>
  What the host answers during one call of \<open>collectSample\<close>. \<open>os.totalmem()\<close>,
  \<open>os.freemem()\<close> and \<open>os.cpus()\<close> always answer (\<open>os.cpus()\<close> with an empty list when
  nothing is known). \<open>pidusage\<close> and \<open>os.networkInterfaces()\<close> either throw (\<open>Inl\<close> with
  the message) or yield their reading. \<open>net_counters\<close> is the outcome of running
  \<open>netstat -ib\<close> or of reading \<open>/proc/net/dev\<close>: the exception, or the sums of the
  received and sent byte columns.
\<close>

record host =
  clock :: int
  os_memory_cpus :: "nat \<times> nat \<times> cpu_times list"
  pidusage :: "string + rat \<times> nat \<times> nat"
  os_networkInterfaces :: "string + unit"
  os_platform :: platform
  net_counters :: "string + nat \<times> nat"
  net_clock :: int
  appendFile_ok :: bool

definition zero_network :: network_metrics where
  "zero_network =
     \<lparr>bytesReceived = 0, bytesSent = 0, bytesReceivedPerSec = 0, bytesSentPerSec = 0,
      mbReceivedPerSec = 0, mbSentPerSec = 0\<rparr>"

text \<open>
  \<open>getNetworkMetrics\<close>: the metric group and the new \<open>lastNetworkStats\<close>. A failure of
  the platform's reading is caught inside and leaves the totals at \<open>0\<close>; any other
  exception reaches the outer \<open>catch\<close>.
\<close>

definition getNetworkMetrics ::
  "'a host_scheme \<Rightarrow> network_stats option \<Rightarrow> network_metrics \<times> network_stats option" where
  "getNetworkMetrics h lastStats =
     (case os_networkInterfaces h of
        Inl err \<Rightarrow> (zero_network, lastStats)
      | Inr _ \<Rightarrow>
          let (totalBytesReceived, totalBytesSent) =
                (case os_platform h of
                   OtherPlatform \<Rightarrow> (0, 0)
                 | _ \<Rightarrow> (case net_counters h of Inl err \<Rightarrow> (0, 0) | Inr totals \<Rightarrow> totals));
              currentStats =
                \<lparr>stats_bytesReceived = totalBytesReceived, stats_bytesSent = totalBytesSent,
                 stats_timestamp = net_clock h\<rparr>;
              (receivedPerSec, sentPerSec) =
                (case lastStats of
                   None \<Rightarrow> (0, 0)
                 | Some l \<Rightarrow>
                     let timeDelta = (of_int (net_clock h - stats_timestamp l) :: rat) / 1000
                     in if timeDelta > 0
                        then ((of_nat totalBytesReceived - of_nat (stats_bytesReceived l)) / timeDelta,
                              (of_nat totalBytesSent - of_nat (stats_bytesSent l)) / timeDelta)
                        else (0, 0))
          in (\<lparr>bytesReceived = totalBytesReceived, bytesSent = totalBytesSent,
               bytesReceivedPerSec = receivedPerSec, bytesSentPerSec = sentPerSec,
               mbReceivedPerSec = receivedPerSec / (1024 * 1024),
               mbSentPerSec = sentPerSec / (1024 * 1024)\<rparr>,
              Some currentStats))"

text \<open>\<open>getSystemMetrics\<close>: three readings of the \<open>os\<close> module and arithmetic on them.\<close>

definition getSystemMetrics :: "'a host_scheme \<Rightarrow> system_metrics" where
  "getSystemMetrics h =
     (case os_memory_cpus h of
        (totalMem, freeMem, cpus) \<Rightarrow>
          let usedMem = int totalMem - int freeMem
          in \<lparr>totalMemory = totalMem, freeMemory = freeMem, usedMemory = usedMem,
              memoryUsagePercent = (of_int usedMem / of_nat totalMem) * 100,
              cpuCount = length cpus,
              totalIdle = sum_list (map idle cpus),
              totalTick = sum_list (map (\<lambda>t. user t + nice t + sys t + idle t + irq t) cpus)\<rparr>)"

definition getProcessMetrics :: "'a host_scheme \<Rightarrow> nat \<Rightarrow> process_metrics" where
  "getProcessMetrics h self =
     (case pidusage h of
        Inl err \<Rightarrow> \<lparr>cpu = 0, memory = 0, process_pid = self\<rparr>
      | Inr (c, m, p) \<Rightarrow> \<lparr>cpu = c, memory = m, process_pid = p\<rparr>)"

text \<open>
  \<open>collectSample\<close> on the tracker and the files (the lines of each existing file). None
  of the three probes rejects: the process and the network probe catch their failures,
  the system probe has none. A failed append to the file is caught and only logged.
\<close>

type_synonym sample_files = "string \<rightharpoonup> sample line list"

definition collectSample ::
  "'a host_scheme \<Rightarrow> tracker \<times> sample_files \<Rightarrow> tracker \<times> sample_files" where
  "collectSample h st =
     (let t = fst st;
          timestamp1 = clock h;
          elapsed = (case startTime t of
                       Some s \<Rightarrow> if s \<noteq> 0 then timestamp1 - s else 0
                     | None \<Rightarrow> 0);
          processMetrics = getProcessMetrics h (tracker_pid t);
          (networkMetrics, lastStats) = getNetworkMetrics h (lastNetworkStats t);
          t1 = t\<lparr>lastNetworkStats := lastStats\<rparr>;
          smp = \<lparr>sample_timestamp = timestamp1, elapsedMs = elapsed,
                 system = getSystemMetrics h, process = processMetrics,
                 network = networkMetrics\<rparr>;
          t2 = t1\<lparr>samples := samples t1 @ [smp]\<rparr>
      in (case performanceFile t2 of
            None \<Rightarrow> (t2, snd st)
          | Some f \<Rightarrow>
              if appendFile_ok h
              then (t2, (snd st)(f \<mapsto> (case snd st f of None \<Rightarrow> [] | Some ls \<Rightarrow> ls) @ [Json smp]))
              else (t2, snd st)))"

text \<open>The ticks of the interval timer, one host answer per tick.\<close>

fun run_ticks :: "'a host_scheme list \<Rightarrow> tracker \<times> sample_files \<Rightarrow> tracker \<times> sample_files" where
  "run_ticks [] st = st"
| "run_ticks (h # hs) st = run_ticks hs (collectSample h st)"

record summary =
  durationMs :: int
  sampleCount :: nat
  avgProcessCPU :: rat
  maxProcessCPU :: rat
  avgProcessMemoryBytes :: rat
  maxProcessMemoryBytes :: nat
  avgSystemMemoryUsagePercent :: rat
  maxSystemMemoryUsagePercent :: rat
  totalSystemMemoryBytes :: nat
  totalBytesReceived :: nat
  totalBytesSent :: nat

text \<open>\<open>calculateSummary\<close>, without the fields that only rescale another one to MB or GB.\<close>

definition calculateSummary :: "sample list \<Rightarrow> summary option" where
  "calculateSummary smps =
     (if smps = [] then None
      else
        let firstSample = hd smps;
            lastSample = last smps;
            n = length smps
        in Some
          \<lparr>durationMs = sample_timestamp lastSample - sample_timestamp firstSample,
           sampleCount = n,
           avgProcessCPU = sum_list (map (\<lambda>s. cpu (process s)) smps) / of_nat n,
           maxProcessCPU = fold (\<lambda>s m. max m (cpu (process s))) smps 0,
           avgProcessMemoryBytes = of_nat (sum_list (map (\<lambda>s. memory (process s)) smps)) / of_nat n,
           maxProcessMemoryBytes = fold (\<lambda>s m. max m (memory (process s))) smps 0,
           avgSystemMemoryUsagePercent =
             sum_list (map (\<lambda>s. memoryUsagePercent (system s)) smps) / of_nat n,
           maxSystemMemoryUsagePercent = fold (\<lambda>s m. max m (memoryUsagePercent (system s))) smps 0,
           totalSystemMemoryBytes = totalMemory (system firstSample),
           totalBytesReceived = bytesReceived (network lastSample),
           totalBytesSent = bytesSent (network lastSample)\<rparr>)"

record stop_result =
  result_samples :: "sample list"
  result_summary :: "summary option"

text \<open>
  \<open>stop\<close> of the tracker. Empty lines of the file are dropped; if a remaining line does
  not parse, the \<open>catch\<close> keeps the samples held in memory. \<open>unlink_ok\<close> tells whether
  deleting the file succeeds.
\<close>

definition nonempty_lines :: "'e line list \<Rightarrow> 'e line list" where
  "nonempty_lines ls = filter (\<lambda>l. l \<noteq> Blank) ls"

definition tracker_stop ::
  "bool \<Rightarrow> tracker \<times> sample_files \<Rightarrow> stop_result \<times> tracker \<times> sample_files" where
  "tracker_stop unlink_ok st =
     (let t1 = (fst st)\<lparr>interval := False\<rparr>;
          files = snd st;
          loaded =
            (case performanceFile t1 of
               None \<Rightarrow> samples t1
             | Some f \<Rightarrow>
                 (case files f of
                    None \<Rightarrow> samples t1
                  | Some ls \<Rightarrow>
                      if Garbage \<in> set (nonempty_lines ls) then samples t1
                      else parsed_events (nonempty_lines ls)));
          t2 = t1\<lparr>samples := loaded\<rparr>
      in if length (samples t2) = 0
         then (\<lparr>result_samples = [], result_summary = None\<rparr>, t2, files)
         else
           let result = \<lparr>result_samples = samples t2,
                          result_summary = calculateSummary (samples t2)\<rparr>;
               files' = (case performanceFile t2 of
                           None \<Rightarrow> files
                         | Some f \<Rightarrow> if unlink_ok then files(f := None) else files)
           in (result, t2\<lparr>samples := [], startTime := None, performanceFile := None\<rparr>, files'))"

section \<open>The capture supervisor: \<open>startRecording\<close> and \<open>stopRecording\<close>\<close>

text \<open>
  The exceptions of the recorder: \<open>Recording already in progress\<close>,
  \<open>No recording in progress\<close>, \<open>Recording file is empty or missing\<close>,
  \<open>Failed to finalize recording after all attempts\<close>, and an exception raised by a
  collaborator (a subprocess, the file system, the preview generation) with its message.
\<close>

datatype error = AlreadyActive | NotActive | CaptureEmpty | FinalizationFailed | Thrown string

record recording_process =
  pid :: nat
  spawnargs :: "string list"

text \<open>
  An entry of \<open>logsTrackerManager.instances\<close>: the directory of its CLI tracker and the
  number of events that tracker has counted.
\<close>

record log_instance =
  instance_directory :: string
  cli_events :: nat

text \<open>
  The module variables of the recorder together with what its collaborators hold: the
  application tracker, the instances of the logs tracker manager, the size of every
  existing file, and the delays (in ms) the recorder has waited for, in order.
\<close>

record world =
  currentRecording :: "recording_process option"
  outputPath :: "string option"
  recordingStartTime :: "int option"
  applicationTracker_active :: bool
  applicationTracker_stops :: nat
  instances :: "(string \<times> log_instance) list"
  disk :: "string \<rightharpoonup> nat"
  sleeps :: "nat list"

text \<open>
  Modelled from the spec: \<open>applicationTracker\<close> (\<open>lib/applicationTracker.js\<close> is not
  among the sources). \<open>start()\<close> makes the tracker active; \<open>stop()\<close> makes it inactive
  and hands back what it collected. The calls of \<open>stop()\<close> are counted.
\<close>

definition applicationTracker_start :: "'a world_scheme \<Rightarrow> 'a world_scheme" where
  "applicationTracker_start w = w\<lparr>applicationTracker_active := True\<rparr>"

definition applicationTracker_stop :: "'a world_scheme \<Rightarrow> 'a world_scheme" where
  "applicationTracker_stop w =
     w\<lparr>applicationTracker_active := False,
       applicationTracker_stops := Suc (applicationTracker_stops w)\<rparr>"

text \<open>\<open>LogsTrackerManager.startNew\<close> and \<open>LogsTrackerManager.stop\<close> on the instances.\<close>

definition instance_key :: "string \<Rightarrow> string \<Rightarrow> string" where
  "instance_key recorderId screenId = recorderId @ ''_'' @ screenId"

definition logs_startNew ::
  "string \<Rightarrow> string \<Rightarrow> string \<Rightarrow> (string \<times> log_instance) list \<Rightarrow> (string \<times> log_instance) list" where
  "logs_startNew recorderId screenId directory insts =
     AList.update (instance_key recorderId screenId)
       \<lparr>instance_directory = directory, cli_events = 0\<rparr> insts"

text \<open>\<open>CLILogsTracker.destroy\<close> returns the status of the tracker.\<close>

definition cli_status :: "log_instance \<Rightarrow> log_status list" where
  "cli_status inst =
     [\<lparr>status_type = ''cli'',
       fileLocation = (if instance_directory inst = [] then []
                       else path_join (instance_directory inst) ''dashcam_cli_logs.jsonl''),
       count = cli_events inst,
       trimmedFileLocation = None\<rparr>]"

definition logs_stop ::
  "string \<Rightarrow> string \<Rightarrow> (string \<times> log_instance) list
     \<Rightarrow> log_status list \<times> (string \<times> log_instance) list" where
  "logs_stop recorderId screenId insts =
     (case map_of insts (instance_key recorderId screenId) of
        None \<Rightarrow> ([], insts)
      | Some inst \<Rightarrow> (cli_status inst, AList.delete (instance_key recorderId screenId) insts))"

text \<open>\<open>s.split('/').pop()\<close> and \<open>s.replace(pat, rep)\<close> (the first occurrence only).\<close>

definition last_segment :: "string \<Rightarrow> string" where
  "last_segment p = rev (takeWhile (\<lambda>c. c \<noteq> CHR ''/'') (rev p))"

fun replace_first :: "string \<Rightarrow> string \<Rightarrow> string \<Rightarrow> string" where
  "replace_first pat rep [] = (if pat = [] then rep else [])"
| "replace_first pat rep (c # cs) =
     (if take (length pat) (c # cs) = pat then rep @ drop (length pat) (c # cs)
      else c # replace_first pat rep cs)"

text \<open>\<open>outputPath.substring(0, outputPath.lastIndexOf('.'))\<close>.\<close>

definition base_path :: "string \<Rightarrow> string" where
  "base_path p =
     (if CHR ''.'' \<in> set p then rev (drop 1 (dropWhile (\<lambda>c. c \<noteq> CHR ''.'') (rev p))) else [])"

record start_options =
  fps :: nat
  includeAudio :: bool
  customOutputPath :: "string option"

text \<open>
  What the host answers during one call of \<open>startRecording\<close>: the working directory, the
  two readings of \<open>new Date().toISOString()\<close> and the outcomes of \<open>mkdirSync\<close> in the two
  calls of \<open>generateOutputPath\<close>, \<open>Date.now()\<close> printed for the name of the temporary file,
  the arguments of the capture command before that name, the outcome of \<open>execa\<close> (an
  exception or the pid), and \<open>Date.now()\<close> for the start time.
\<close>

record start_host =
  cwd :: string
  toISOString1 :: string
  mkdirSync1 :: "string + unit"
  temp_stamp :: string
  capture_args :: "string list"
  execa :: "string + nat"
  start_now :: int
  toISOString2 :: string
  mkdirSync2 :: "string + unit"

definition generateOutputPath :: "string \<Rightarrow> string \<Rightarrow> string + unit \<Rightarrow> error + string" where
  "generateOutputPath dir isoString mkdir =
     (let timestamp1 =
            map (\<lambda>c. if c = CHR '':'' \<or> c = CHR ''.'' then CHR ''-'' else c) isoString;
          directory = path_join (path_join dir ''tmp'') ''recordings'';
          filepath = path_join directory (''recording-'' @ timestamp1 @ ''.webm'')
      in case mkdir of Inl msg \<Rightarrow> Inl (Thrown msg) | Inr _ \<Rightarrow> Inr filepath)"

definition startRecording ::
  "start_options \<Rightarrow> start_host \<Rightarrow> world \<Rightarrow> (error + string \<times> int) \<times> world" where
  "startRecording opts h w =
     (case currentRecording w of
        Some running \<Rightarrow> (Inl AlreadyActive, w)
      | None \<Rightarrow>
          (case (case customOutputPath opts of
                   Some p \<Rightarrow> if p \<noteq> [] then Inr p
                             else generateOutputPath (cwd h) (toISOString1 h) (mkdirSync1 h)
                 | None \<Rightarrow> generateOutputPath (cwd h) (toISOString1 h) (mkdirSync1 h)) of
             Inl err \<Rightarrow> (Inl err, w)
           | Inr out \<Rightarrow>
               let w1 = w\<lparr>outputPath := Some out\<rparr>;
                   tempFile = path_join (path_dirname out) (''temp-'' @ temp_stamp h @ ''.webm'')
               in (case execa h of
                     Inl msg \<Rightarrow>
                       (Inl (Thrown msg), w1\<lparr>currentRecording := None, recordingStartTime := None\<rparr>)
                   | Inr p \<Rightarrow>
                       let w2 = applicationTracker_start
                                  (w1\<lparr>currentRecording :=
                                         Some \<lparr>pid = p, spawnargs = capture_args h @ [tempFile]\<rparr>,
                                       recordingStartTime := Some (start_now h)\<rparr>)
                       in (case generateOutputPath (cwd h) (toISOString2 h) (mkdirSync2 h) of
                             Inl err \<Rightarrow>
                               (Inl err, w2\<lparr>currentRecording := None, recordingStartTime := None\<rparr>)
                           | Inr fresh \<Rightarrow>
                               let recorderId = replace_first ''.webm'' [] (last_segment fresh)
                               in (Inr (out, start_now h),
                                   w2\<lparr>instances :=
                                        logs_startNew recorderId ''1'' (path_dirname out)
                                          (instances w2)\<rparr>)))))"

text \<open>
  One finalization subprocess: it exits with a code and leaves the output file with the
  given size (or absent), or the attempt throws.
\<close>

datatype attempt = Exited int "nat option" | Threw string

text \<open>
  What the host answers during one call of \<open>stopRecording\<close>: the finalization attempts by
  index, the outcome of deleting the temporary file, of \<open>createGif\<close> and of
  \<open>createSnapshot\<close>, and \<open>Date.now()\<close> when the result is assembled.
\<close>

record stop_host =
  finalize :: "nat \<Rightarrow> attempt"
  unlinkSync :: "string + unit"
  createGif :: "string + unit"
  createSnapshot :: "string + unit"
  result_now :: int

definition attempts :: nat where
  "attempts = 3"

text \<open>
  The \<open>for\<close> loop of the finalization from index \<open>i\<close>, on the disk and the delays waited
  for. It ends with the value of \<open>success\<close> or with the exception that leaves it.
\<close>

function finalize_loop ::
  "(nat \<Rightarrow> attempt) \<Rightarrow> string \<Rightarrow> nat \<Rightarrow> bool \<Rightarrow> (string \<rightharpoonup> nat) \<times> nat list
     \<Rightarrow> (error + bool) \<times> (string \<rightharpoonup> nat) \<times> nat list" where
  "finalize_loop fin out i success st =
     (if i < attempts \<and> \<not> success
      then
        let waited = snd st @ [(i + 1) * 2000]
        in (case fin i of
              Threw msg \<Rightarrow>
                if i = attempts - 1 then (Inl (Thrown msg), fst st, waited)
                else finalize_loop fin out (i + 1) success (fst st, waited)
            | Exited exitCode file \<Rightarrow>
                let d = (fst st)(out := file)
                in if exitCode = 0 \<and> (case d out of None \<Rightarrow> False | Some bytes \<Rightarrow> bytes > 0)
                   then (Inr True, d, waited)
                   else finalize_loop fin out (i + 1) success (d, waited))
      else (Inr success, st))"
  by pat_completeness auto
termination
  by (relation "measure (\<lambda>(fin, out, i, success, st). attempts - i)") auto

declare finalize_loop.simps [simp del]

record recording_result =
  result_outputPath :: string
  gifPath :: string
  snapshotPath :: string
  duration :: int
  fileSize :: nat
  clientStartDate :: "int option"
  logs :: "log_status list"

text \<open>
  The \<open>try\<close> block of \<open>stopRecording\<close>. The quit request and the two kill timers act on
  the capture process only; \<open>disk\<close> is the disk once that process has exited. Without an
  output path every attempt throws on its argument list.
\<close>

definition stop_try ::
  "stop_host \<Rightarrow> recording_process \<Rightarrow> world \<Rightarrow> (error + recording_result) \<times> world" where
  "stop_try h running w =
     (let w0 = w\<lparr>sleeps := sleeps w @ [1000]\<rparr>;
          tempFile = (if spawnargs running = [] then [] else last (spawnargs running))
      in if spawnargs running = []
            \<or> (case disk w0 tempFile of None \<Rightarrow> True | Some bytes \<Rightarrow> bytes = 0)
         then (Inl CaptureEmpty, w0)
         else
           let out = (case outputPath w0 of None \<Rightarrow> [] | Some p \<Rightarrow> p);
               fin = (case outputPath w0 of
                        None \<Rightarrow> (\<lambda>i. Threw ''ERR_INVALID_ARG_TYPE'')
                      | Some p \<Rightarrow> finalize h)
           in (case finalize_loop fin out 0 False (disk w0, sleeps w0) of
                 (Inl err, d, waited) \<Rightarrow> (Inl err, w0\<lparr>disk := d, sleeps := waited\<rparr>)
               | (Inr success, d, waited) \<Rightarrow>
                   let w1 = w0\<lparr>disk := d, sleeps := waited\<rparr>
                   in if \<not> success then (Inl FinalizationFailed, w1)
                      else
                        let w2 = (case unlinkSync h of
                                    Inl msg \<Rightarrow> w1
                                  | Inr _ \<Rightarrow> w1\<lparr>disk := (disk w1)(tempFile := None)\<rparr>);
                            basePath = base_path out;
                            w3 = applicationTracker_stop w2;
                            recorderId = replace_first ''.webm'' [] (path_basename out);
                            (logTrackingResults, insts) = logs_stop recorderId ''1'' (instances w3);
                            w4 = w3\<lparr>instances := insts\<rparr>
                        in (case createGif h of
                              Inl msg \<Rightarrow> (Inl (Thrown msg), w4)
                            | Inr _ \<Rightarrow>
                                (case createSnapshot h of
                                   Inl msg \<Rightarrow> (Inl (Thrown msg), w4)
                                 | Inr _ \<Rightarrow>
                                     (case disk w4 out of
                                        None \<Rightarrow> (Inl (Thrown ''ENOENT''), w4)
                                      | Some bytes \<Rightarrow>
                                          (Inr \<lparr>result_outputPath = out,
                                                 gifPath = basePath @ ''.gif'',
                                                 snapshotPath = basePath @ ''.png'',
                                                 duration =
                                                   (case recordingStartTime w4 of
                                                      None \<Rightarrow> result_now h
                                                    | Some t \<Rightarrow> result_now h - t),
                                                 fileSize = bytes,
                                                 clientStartDate = recordingStartTime w4,
                                                 logs = logTrackingResults\<rparr>,
                                           w4))))))"

text \<open>
  \<open>stopRecording\<close>: the guard, the \<open>try\<close> block, and the three statements that end both
  the successful path and the \<open>catch\<close> block.
\<close>

definition stopRecording ::
  "stop_host \<Rightarrow> world \<Rightarrow> (error + recording_result) \<times> world" where
  "stopRecording h w =
     (case currentRecording w of
        None \<Rightarrow> (Inl NotActive, w)
      | Some running \<Rightarrow>
          (case stop_try h running w of
             (Inr result, w') \<Rightarrow>
               (Inr result,
                applicationTracker_stop (w'\<lparr>currentRecording := None, recordingStartTime := None\<rparr>))
           | (Inl err, w') \<Rightarrow>
               (Inl err,
                applicationTracker_stop (w'\<lparr>currentRecording := None, recordingStartTime := None\<rparr>))))"

section \<open>Predicates and invariants used in the proofs\<close>

text \<open>
  The dictionary of the anonymizing pass always holds distinct keys whose values are
  \<open>1, 2, \<dots>\<close> in insertion order.
\<close>

definition fm_inv :: "fileMap \<Rightarrow> bool" where
  "fm_inv m = (distinct (map fst m) \<and> map snd m = map Suc [0..<length m])"

text \<open>Every file written by the trimming loop holds the trimmed events of some source.\<close>

definition written_ok ::
  "(nat \<Rightarrow> nat \<Rightarrow> int) \<Rightarrow> int \<Rightarrow> int \<Rightarrow> int \<Rightarrow> (string \<times> 'a event_scheme list) list \<Rightarrow> bool" where
  "written_ok now s e c w =
     (\<forall>(p, evs) \<in> set w. \<exists>typ n events. evs = trim_events typ (now n) s e c events)"

text \<open>
  A pattern matches an event when the event's tab is known and the pattern matches the
  tab's current or previous URL.
\<close>

definition pattern_matches ::
  "(string \<Rightarrow> string option \<Rightarrow> bool) \<Rightarrow> tabs \<Rightarrow> 'a web_event_scheme \<Rightarrow> string \<Rightarrow> bool" where
  "pattern_matches verifyPattern tbs event pattern =
     (case payload event of
        None \<Rightarrow> False
      | Some pl \<Rightarrow>
          (case tabId pl of
             None \<Rightarrow> False
           | Some i \<Rightarrow>
               (case tbs i of
                  None \<Rightarrow> False
                | Some tb \<Rightarrow> verifyPattern pattern (url tb) \<or> verifyPattern pattern (previousUrl tb))))"

definition cache_sound ::
  "(string \<Rightarrow> string option \<Rightarrow> bool) \<Rightarrow> tabs \<Rightarrow> 'a web_event_scheme \<Rightarrow> cache \<Rightarrow> bool" where
  "cache_sound verifyPattern tbs event c =
     (\<forall>p b. map_of c p = Some b \<longrightarrow> b = pattern_matches verifyPattern tbs event p)"

text \<open>
  An attempt succeeds when the subprocess exits with success and the final output file
  exists and is not empty; \<open>first_success\<close> is the first such attempt, if there is one.
\<close>

definition attempt_succeeds :: "attempt \<Rightarrow> bool" where
  "attempt_succeeds a =
     (case a of
        Exited exitCode file \<Rightarrow>
          exitCode = 0 \<and> (case file of None \<Rightarrow> False | Some bytes \<Rightarrow> bytes > 0)
      | Threw msg \<Rightarrow> False)"

definition first_success :: "(nat \<Rightarrow> attempt) \<Rightarrow> nat option" where
  "first_success fin = find (\<lambda>i. attempt_succeeds (fin i)) [0..<attempts]"

section \<open>Example inputs\<close>

definition cli_event :: "int \<Rightarrow> nat \<Rightarrow> event" where
  "cli_event t k = \<lparr>time = Some t, timestamp = None, logFile = Some k\<rparr>"

definition scenario_events :: "event line list" where
  "scenario_events =
     [Json \<lparr>time = Some 1000, timestamp = None, logFile = None\<rparr>,
      Json \<lparr>time = Some 500, timestamp = None, logFile = None\<rparr>]"

definition fresh_tracker :: tracker where
  "fresh_tracker =
     \<lparr>interval = True, samples = [], startTime = Some 1000, tracker_pid = 42,
      lastNetworkStats = None, performanceFile = Some ''/rec/performance.jsonl''\<rparr>"

definition healthy_host :: host where
  "healthy_host =
     \<lparr>clock = 6000,
      os_memory_cpus = (8000, 2000, [\<lparr>user = 5, nice = 0, sys = 3, idle = 90, irq = 2\<rparr>]),
      pidusage = Inr (25 / 2, 4096, 42),
      os_networkInterfaces = Inr (),
      os_platform = Linux,
      net_counters = Inr (700, 300),
      net_clock = 6001,
      appendFile_ok = True\<rparr>"

definition idle_world :: world where
  "idle_world =
     \<lparr>currentRecording = None, outputPath = None, recordingStartTime = None,
      applicationTracker_active = False, applicationTracker_stops = 0, instances = [],
      disk = Map.empty, sleeps = []\<rparr>"

definition default_options :: start_options where
  "default_options = \<lparr>fps = 10, includeAudio = False, customOutputPath = None\<rparr>"

text \<open>A host on which both calls of \<open>generateOutputPath\<close> fall into the same millisecond.\<close>

definition quick_host :: start_host where
  "quick_host =
     \<lparr>cwd = ''/w'', toISOString1 = ''2024-01-01T00:00:00.000Z'', mkdirSync1 = Inr (),
      temp_stamp = ''1704067200000'', capture_args = [''ffmpeg'', ''-y''], execa = Inr 77,
      start_now = 1704067200005, toISOString2 = ''2024-01-01T00:00:00.000Z'',
      mkdirSync2 = Inr ()\<rparr>"

text \<open>The world after \<open>startRecording\<close>, once the capture process has written 500 bytes.\<close>

definition recording_world :: world where
  "recording_world =
     (let w = snd (startRecording default_options quick_host idle_world)
      in w\<lparr>disk := (disk w)(''/w/tmp/recordings/temp-1704067200000.webm'' \<mapsto> 500)\<rparr>)"

definition never_finalizes :: "nat \<Rightarrow> attempt" where
  "never_finalizes i = Exited 1 None"

definition third_finalizes :: "nat \<Rightarrow> attempt" where
  "third_finalizes i = (if i = 2 then Exited 0 (Some 400) else Exited 1 None)"

definition failing_stop :: stop_host where
  "failing_stop =
     \<lparr>finalize = never_finalizes, unlinkSync = Inr (), createGif = Inr (),
      createSnapshot = Inr (), result_now = 1704067260005\<rparr>"

definition late_stop :: stop_host where
  "late_stop =
     \<lparr>finalize = third_finalizes, unlinkSync = Inr (), createGif = Inr (),
      createSnapshot = Inr (), result_now = 1704067260005\<rparr>"

section \<open>Properties of the trimming\<close>

subsection \<open>The anonymizing dictionary\<close>

lemma update_absent: "map_of m k = None \<Longrightarrow> AList.update k v m = m @ [(k, v)]"
  by (induction m) (auto split: if_splits)

lemma update_length: "length (AList.update k v m) \<le> Suc (length m)"
  by (induction m) auto

lemma keys_length_inv: "fm_inv m \<Longrightarrow> keys_length m = length m"
  by (simp add: fm_inv_def keys_length_def distinct_remdups_id)

lemma fm_inv_pos:
  assumes "fm_inv m" "map_of m k = Some v"
  shows "1 \<le> v \<and> v \<le> length m"
proof -
  from assms(2) have "v \<in> set (map snd m)"
    by (metis map_of_SomeD set_zip_rightD zip_map_fst_snd)
  with assms(1) have "v \<in> set (map Suc [0..<length m])" by (simp add: fm_inv_def)
  then show ?thesis by auto
qed

lemma fm_inv_inj:
  assumes "fm_inv m" "map_of m k = Some v" "map_of m k' = Some v"
  shows "k = k'"
proof -
  from assms(1) have "distinct (map snd m)"
    by (simp add: fm_inv_def distinct_map)
  then have "inj_on snd (set m)" by (simp add: distinct_map)
  moreover have "(k, v) \<in> set m" "(k', v) \<in> set m"
    using assms(2,3) by (auto dest: map_of_SomeD)
  ultimately show ?thesis using inj_onD [of snd "set m" "(k, v)" "(k', v)"] by simp
qed

lemma fm_inv_empty: "fm_inv []"
  by (simp add: fm_inv_def)

lemma fm_inv_step: "fm_inv m \<Longrightarrow> fm_inv (fst (anonymize_event m e))"
proof -
  assume a: "fm_inv m"
  have "fm_inv (AList.update k (length m + 1) m)" if "map_of m k = None" for k
  proof -
    from that have "k \<notin> fst ` set m" by (simp add: map_of_eq_None_iff)
    with a that show ?thesis by (simp add: update_absent fm_inv_def)
  qed
  moreover have "truthy (map_of m k)" if "map_of m k = Some v" for k v
    using fm_inv_pos [OF a that] that by (simp add: truthy_def)
  ultimately show ?thesis using a
    by (auto simp: anonymize_event_def keys_length_inv Let_def split: option.splits)
qed

lemma step_mono:
  "fm_inv m \<Longrightarrow> map_of m k = Some v \<Longrightarrow> map_of (fst (anonymize_event m e)) k = Some v"
  by (auto simp: anonymize_event_def Let_def AList.update_conv' truthy_def
      split: option.splits dest: fm_inv_pos)

lemma step_out:
  "fm_inv m \<Longrightarrow> logFile e = Some k \<Longrightarrow> k \<noteq> 0 \<Longrightarrow>
   logFile (snd (anonymize_event m e)) = map_of (fst (anonymize_event m e)) k
   \<and> map_of (fst (anonymize_event m e)) k \<noteq> None"
  by (auto simp: anonymize_event_def Let_def AList.update_conv' truthy_def
      split: option.splits dest: fm_inv_pos)

lemma step_falsy:
  "\<not> truthy (logFile e) \<Longrightarrow> anonymize_event m e = (m, e)"
  by (auto simp: anonymize_event_def truthy_def split: option.splits)

lemma anonymize_inv: "fm_inv m \<Longrightarrow> fm_inv (fst (anonymize m es))"
proof (induction es arbitrary: m)
  case Nil then show ?case by simp
next
  case (Cons e es)
  from Cons.IH [OF fm_inv_step [OF Cons.prems, of e]] show ?case
    by (simp add: split_beta Let_def)
qed

lemma anonymize_mono:
  "fm_inv m \<Longrightarrow> map_of m k = Some v \<Longrightarrow> map_of (fst (anonymize m es)) k = Some v"
proof (induction es arbitrary: m)
  case Nil then show ?case by simp
next
  case (Cons e es)
  from Cons.IH [OF fm_inv_step [OF Cons.prems(1), of e] step_mono [OF Cons.prems, of e]]
  show ?case by (simp add: split_beta Let_def)
qed

lemma anonymize_length: "length (snd (anonymize m es)) = length es"
  by (induction es arbitrary: m) (simp_all add: split_beta Let_def)

lemma anonymize_size: "length (fst (anonymize m es)) \<le> length m + length es"
proof (induction es arbitrary: m)
  case Nil then show ?case by simp
next
  case (Cons e es)
  have "length (fst (anonymize_event m e)) \<le> Suc (length m)"
    using update_length [of _ _ m]
    by (auto simp: anonymize_event_def Let_def split: option.splits)
  with Cons [of "fst (anonymize_event m e)"] show ?case
    by (simp add: split_beta Let_def)
qed

lemma anonymize_out:
  "fm_inv m \<Longrightarrow> i < length es \<Longrightarrow> logFile (es ! i) = Some k \<Longrightarrow> k \<noteq> 0 \<Longrightarrow>
   logFile (snd (anonymize m es) ! i) = map_of (fst (anonymize m es)) k
   \<and> map_of (fst (anonymize m es)) k \<noteq> None"
proof (induction es arbitrary: m i)
  case Nil then show ?case by simp
next
  case (Cons e es)
  let ?m1 = "fst (anonymize_event m e)"
  have inv1: "fm_inv ?m1" by (rule fm_inv_step [OF Cons.prems(1)])
  show ?case
  proof (cases i)
    case 0
    with Cons.prems have "logFile e = Some k" by simp
    from step_out [OF Cons.prems(1) this Cons.prems(4)]
    obtain v where v: "map_of ?m1 k = Some v" "logFile (snd (anonymize_event m e)) = Some v"
      by auto
    from anonymize_mono [OF inv1 v(1), of es] v(2) 0 show ?thesis
      by (simp add: split_beta Let_def)
  next
    case (Suc j)
    with Cons.prems have "j < length es" "logFile (es ! j) = Some k" by simp_all
    from Cons.IH [OF inv1 this Cons.prems(4)] Suc show ?thesis
      by (simp add: split_beta Let_def)
  qed
qed

lemma anonymize_time: "map time (snd (anonymize m es)) = map time es"
  by (induction es arbitrary: m)
     (auto simp: split_beta Let_def anonymize_event_def split: option.splits)

lemma anonymize_falsy:
  "i < length es \<Longrightarrow> \<not> truthy (logFile (es ! i)) \<Longrightarrow> snd (anonymize m es) ! i = es ! i"
proof (induction es arbitrary: m i)
  case Nil then show ?case by simp
next
  case (Cons e es)
  then show ?case by (cases i) (simp_all add: split_beta Let_def step_falsy)
qed

lemma to_relative_logFile: "logFile (to_relative s c n e) = logFile e"
  by (simp add: to_relative_def Let_def)

subsection \<open>Relative times and the window\<close>

lemma to_relative_time:
  "time (to_relative s c n e) =
     Some (if eventTime n e - s > absolute_threshold then eventTime n e - s - c else eventTime n e - s)"
  by (simp add: to_relative_def Let_def)

lemma trim_events_times:
  "map time (trim_events typ now s e c events) =
     filter (\<lambda>t. case t of Some r \<Rightarrow> 0 \<le> r \<and> r \<le> e - s | None \<Rightarrow> False)
       (map time (relativeEvents now s c events))"
proof -
  have "map time (filter (in_window d) xs) =
        filter (\<lambda>t. case t of Some r \<Rightarrow> 0 \<le> r \<and> r \<le> d | None \<Rightarrow> False) (map time xs)"
    for d and xs :: "'a event_scheme list"
    by (induction xs) (simp_all add: in_window_def)
  then show ?thesis by (simp add: trim_events_def Let_def anonymize_time)
qed

lemma trim_events_in_window:
  "x \<in> set (trim_events typ now s e c events) \<Longrightarrow> in_window (e - s) x"
proof -
  assume "x \<in> set (trim_events typ now s e c events)"
  then have "time x \<in> set (map time (trim_events typ now s e c events))" by simp
  then show ?thesis unfolding trim_events_times by (auto simp: in_window_def)
qed

lemma trim_status_written:
  "written_ok now s e c (snd st) \<Longrightarrow>
   written_ok now s e c (snd (snd (trim_status (now n) s e c clipId st status)))"
  by (auto simp: trim_status_def written_ok_def Let_def split: option.splits)

lemma trim_loop_written:
  "written_ok now s e c (snd st) \<Longrightarrow>
   written_ok now s e c (snd (snd (trim_loop now s e c clipId n st statuses)))"
proof (induction statuses arbitrary: st n)
  case Nil then show ?case by simp
next
  case (Cons status rest)
  from Cons.IH [OF trim_status_written [OF Cons.prems, of n clipId status], of "Suc n"]
  show ?case by (simp add: split_beta Let_def)
qed

text \<open>
  Claim C4. The session-relative time of every event is its event time minus the
  session start, and once more minus the client start date when that difference exceeds
  \<open>10\<^sup>1\<^sup>2\<close> ms. For the two events with times 1000 and 500, a session from 500 to
  1500 and a source of any type, both events are written, with relative times 500 and 0.
\<close>

theorem trimLogs_relative_time:
  "map time (relativeEvents now startMS clientStart events) =
     map (\<lambda>(i, e). Some (let relative = eventTime (now i) e - startMS
                         in if relative > 1000000000000 then relative - clientStart
                            else relative))
       (enumerate 0 events)
   \<and> snd (snd (trimLogs [''/rec/dashcam_cli_logs.jsonl'' \<mapsto> scenario_events] reading
        [\<lparr>status_type = typ, fileLocation = ''/rec/dashcam_cli_logs.jsonl'', count = 2,
          trimmedFileLocation = None\<rparr>]
        500 1500 c ''clip''))
      = [(''/rec/clip_dashcam_cli_logs.jsonl'',
          [\<lparr>time = Some 500, timestamp = None, logFile = None\<rparr>,
           \<lparr>time = Some 0, timestamp = None, logFile = None\<rparr>])]"
proof -
  have "map time (relativeEvents now startMS clientStart events) =
     map (\<lambda>(i, e). Some (let relative = eventTime (now i) e - startMS
                         in if relative > 1000000000000 then relative - clientStart
                            else relative))
       (enumerate 0 events)"
    by (simp add: relativeEvents_def to_relative_time absolute_threshold_def split_beta Let_def)
  moreover have "snd (snd (trimLogs [''/rec/dashcam_cli_logs.jsonl'' \<mapsto> scenario_events] reading
        [\<lparr>status_type = typ, fileLocation = ''/rec/dashcam_cli_logs.jsonl'', count = 2,
          trimmedFileLocation = None\<rparr>]
        500 1500 c ''clip''))
      = [(''/rec/clip_dashcam_cli_logs.jsonl'',
          [\<lparr>time = Some 500, timestamp = None, logFile = None\<rparr>,
           \<lparr>time = Some 0, timestamp = None, logFile = None\<rparr>])]"
    by (simp add: trimLogs_def trim_status_def parsed_events_def scenario_events_def
        trim_events_def relativeEvents_def to_relative_def eventTime_def in_window_def
        absolute_threshold_def anonymize_event_def path_basename_def path_dirname_def
        path_join_def Let_def)
  ultimately show ?thesis by (rule conjI)
qed

text \<open>
  Claim C5. For a source of any type the written events are exactly the events whose
  relative time lies in \<open>[0, endMS - startMS]\<close>, and every file that \<open>trimLogs\<close> writes
  holds the trimmed events of a source, each with a relative time in that window.
\<close>

theorem trimLogs_writes_only_window_events:
  "map time (trim_events typ reading startMS endMS clientStart events) =
     filter (\<lambda>t. case t of Some r \<Rightarrow> 0 \<le> r \<and> r \<le> endMS - startMS | None \<Rightarrow> False)
       (map time (relativeEvents reading startMS clientStart events))
   \<and> (\<forall>(p, evs) \<in> set (snd (snd (trimLogs fs now statuses startMS endMS clientStart clipId))).
        (\<exists>typ n events. evs = trim_events typ (now n) startMS endMS clientStart events) \<and>
        (\<forall>x \<in> set evs. \<exists>r. time x = Some r \<and> 0 \<le> r \<and> r \<le> endMS - startMS))"
proof -
  let ?W = "snd (snd (trimLogs fs now statuses startMS endMS clientStart clipId))"
  have A: "map time (trim_events typ reading startMS endMS clientStart events) =
     filter (\<lambda>t. case t of Some r \<Rightarrow> 0 \<le> r \<and> r \<le> endMS - startMS | None \<Rightarrow> False)
       (map time (relativeEvents reading startMS clientStart events))"
    by (rule trim_events_times)
  have W: "written_ok now startMS endMS clientStart ?W"
    unfolding trimLogs_def by (rule trim_loop_written) (simp add: written_ok_def)
  have B: "\<forall>(p, evs) \<in> set ?W.
        (\<exists>typ n events. evs = trim_events typ (now n) startMS endMS clientStart events) \<and>
        (\<forall>x \<in> set evs. \<exists>r. time x = Some r \<and> 0 \<le> r \<and> r \<le> endMS - startMS)"
  proof (intro ballI, clarify)
    fix p evs
    assume "(p, evs) \<in> set ?W"
    with W obtain typ' n events' where
      e: "evs = trim_events typ' (now n) startMS endMS clientStart events'"
      unfolding written_ok_def by blast
    have "\<forall>x \<in> set evs. \<exists>r. time x = Some r \<and> 0 \<le> r \<and> r \<le> endMS - startMS"
    proof
      fix x
      assume "x \<in> set evs"
      with e have "in_window (endMS - startMS) x" by (simp add: trim_events_in_window)
      then show "\<exists>r. time x = Some r \<and> 0 \<le> r \<and> r \<le> endMS - startMS"
        by (simp add: in_window_def split: option.splits)
    qed
    with e show "(\<exists>typ n events. evs = trim_events typ (now n) startMS endMS clientStart events) \<and>
        (\<forall>x \<in> set evs. \<exists>r. time x = Some r \<and> 0 \<le> r \<and> r \<le> endMS - startMS)"
      by blast
  qed
  from A B show ?thesis by (rule conjI)
qed

theorem trimLogs_writes_only_window_events_witness:
  "snd (snd (trimLogs [''/rec/dashcam_cli_logs.jsonl'' \<mapsto>
        [Json (cli_event 90 1), Garbage, Json (cli_event 110 7), Json (cli_event 250 7)]]
        (\<lambda>n i. 0)
        [\<lparr>status_type = ''cli'', fileLocation = ''/rec/dashcam_cli_logs.jsonl'', count = 3,
          trimmedFileLocation = None\<rparr>] 100 200 0 ''clip''))
     = [(''/rec/clip_dashcam_cli_logs.jsonl'', [cli_event 10 1])]
   \<and> (\<exists>r. time (cli_event 10 1) = Some r \<and> 0 \<le> r \<and> r \<le> 200 - 100)"
proof -
  have w: "snd (snd (trimLogs [''/rec/dashcam_cli_logs.jsonl'' \<mapsto>
        [Json (cli_event 90 1), Garbage, Json (cli_event 110 7), Json (cli_event 250 7)]]
        (\<lambda>n i. 0)
        [\<lparr>status_type = ''cli'', fileLocation = ''/rec/dashcam_cli_logs.jsonl'', count = 3,
          trimmedFileLocation = None\<rparr>] 100 200 0 ''clip''))
     = [(''/rec/clip_dashcam_cli_logs.jsonl'', [cli_event 10 1])]"
    by (simp add: trimLogs_def trim_status_def parsed_events_def
        trim_events_def relativeEvents_def to_relative_def eventTime_def in_window_def
        absolute_threshold_def anonymize_event_def path_basename_def path_dirname_def
        path_join_def keys_length_def truthy_def cli_event_def Let_def)
  from trimLogs_writes_only_window_events [where fs = "[''/rec/dashcam_cli_logs.jsonl'' \<mapsto>
        [Json (cli_event 90 1), Garbage, Json (cli_event 110 7), Json (cli_event 250 7)]]"
      and now = "\<lambda>n i. 0"
      and statuses = "[\<lparr>status_type = ''cli'', fileLocation = ''/rec/dashcam_cli_logs.jsonl'',
          count = 3, trimmedFileLocation = None\<rparr>]" and startMS = 100 and endMS = 200
      and clientStart = 0 and clipId = "''clip''", THEN conjunct2]
  have "\<exists>r. time (cli_event 10 1) = Some r \<and> 0 \<le> r \<and> r \<le> 200 - 100"
    unfolding w by simp
  with w show ?thesis by (rule conjI)
qed

text \<open>
  Claim C6. In the trimming of a CLI source the events that are kept and carry a
  \<open>logFile\<close> identifier are rewritten to integers between 1 and the number of kept
  events, and two of them get the same integer exactly when they carry the same
  identifier.
\<close>

theorem anonymization_consistent_injective:
  "kept = filter (in_window (endMS - startMS)) (relativeEvents now startMS clientStart events) \<Longrightarrow>
   out = trim_events ''cli'' now startMS endMS clientStart events \<Longrightarrow>
   i < length kept \<Longrightarrow> j < length kept \<Longrightarrow>
   truthy (logFile (kept ! i)) \<Longrightarrow> truthy (logFile (kept ! j)) \<Longrightarrow>
   length out = length kept \<and>
   (\<exists>a b. logFile (out ! i) = Some a \<and> logFile (out ! j) = Some b \<and>
          1 \<le> a \<and> a \<le> length kept \<and>
          (a = b \<longleftrightarrow> logFile (kept ! i) = logFile (kept ! j)))"
proof -
  assume kept: "kept = filter (in_window (endMS - startMS)) (relativeEvents now startMS clientStart events)"
    and out: "out = trim_events ''cli'' now startMS endMS clientStart events"
    and i: "i < length kept" and j: "j < length kept"
    and ti: "truthy (logFile (kept ! i))" and tj: "truthy (logFile (kept ! j))"
  let ?m = "fst (anonymize [] kept)"
  have o: "out = snd (anonymize [] kept)"
    by (simp add: out kept trim_events_def Let_def)
  have inv: "fm_inv ?m" by (rule anonymize_inv [OF fm_inv_empty])
  from ti obtain k where k: "logFile (kept ! i) = Some k" "k \<noteq> 0"
    by (auto simp: truthy_def split: option.splits)
  from tj obtain k' where k': "logFile (kept ! j) = Some k'" "k' \<noteq> 0"
    by (auto simp: truthy_def split: option.splits)
  from anonymize_out [OF fm_inv_empty i k] obtain a
    where a: "logFile (out ! i) = Some a" "map_of ?m k = Some a" by (auto simp: o)
  from anonymize_out [OF fm_inv_empty j k'] obtain b
    where b: "logFile (out ! j) = Some b" "map_of ?m k' = Some b" by (auto simp: o)
  have "1 \<le> a \<and> a \<le> length ?m" by (rule fm_inv_pos [OF inv a(2)])
  moreover have "length ?m \<le> length kept" using anonymize_size [of "[]" kept] by simp
  moreover have "a = b \<longleftrightarrow> k = k'"
    using fm_inv_inj [OF inv a(2), of k'] a(2) b(2) by auto
  ultimately show ?thesis using a(1) b(1) k k' by (simp add: o anonymize_length)
qed

theorem anonymization_consistent_injective_witness:
  "0 < length (filter (in_window (200 - 100))
                 (relativeEvents (\<lambda>i. 0) 100 0 [cli_event 110 7, cli_event 120 3, cli_event 130 7]))
   \<and> 2 < length (filter (in_window (200 - 100))
                   (relativeEvents (\<lambda>i. 0) 100 0 [cli_event 110 7, cli_event 120 3, cli_event 130 7]))
   \<and> truthy (logFile (filter (in_window (200 - 100))
                        (relativeEvents (\<lambda>i. 0) 100 0 [cli_event 110 7, cli_event 120 3, cli_event 130 7]) ! 0))
   \<and> truthy (logFile (filter (in_window (200 - 100))
                        (relativeEvents (\<lambda>i. 0) 100 0 [cli_event 110 7, cli_event 120 3, cli_event 130 7]) ! 2))
   \<and> map logFile (trim_events ''cli'' (\<lambda>i. 0) 100 200 0 [cli_event 110 7, cli_event 120 3, cli_event 130 7])
       = [Some 1, Some 2, Some 1]"
  using anonymization_consistent_injective [OF refl refl, where i = 0 and j = 2
      and now = "\<lambda>i. 0" and startMS = 100 and endMS = 200 and clientStart = 0
      and events = "[cli_event 110 7, cli_event 120 3, cli_event 130 7]"]
  by (simp add: trim_events_def relativeEvents_def to_relative_def eventTime_def in_window_def
      absolute_threshold_def anonymize_event_def keys_length_def truthy_def cli_event_def Let_def)

section \<open>Properties of the event routing\<close>

lemma shouldSendEvent_hit:
  "map_of c p = Some b \<Longrightarrow> shouldSendEvent vp tbs p ev c = Inr (b, c)"
  by (simp add: shouldSendEvent_def cache_get_def cache_truthy_def)

lemma shouldSendEvent_miss:
  "map_of c p = None \<Longrightarrow> p \<notin> set Object_prototype_properties \<Longrightarrow> payload ev \<noteq> None \<Longrightarrow>
   shouldSendEvent vp tbs p ev c =
     Inr (pattern_matches vp tbs ev p, AList.update p (pattern_matches vp tbs ev p) c)"
  by (auto simp: shouldSendEvent_def cache_get_def pattern_matches_def Let_def
      split: option.splits)

lemma cache_sound_update:
  "cache_sound vp tbs ev c \<Longrightarrow>
   cache_sound vp tbs ev (AList.update p (pattern_matches vp tbs ev p) c)"
  by (simp add: cache_sound_def AList.update_conv')

lemma shouldSendEvent_sound:
  assumes "cache_sound vp tbs ev c" "p \<notin> set Object_prototype_properties" "payload ev \<noteq> None"
  shows "\<exists>c'. shouldSendEvent vp tbs p ev c = Inr (pattern_matches vp tbs ev p, c')
              \<and> cache_sound vp tbs ev c'"
proof (cases "map_of c p")
  case None
  from shouldSendEvent_miss [OF None assms(2,3)] cache_sound_update [OF assms(1)]
  show ?thesis by blast
next
  case (Some b)
  with assms(1) have "b = pattern_matches vp tbs ev p" by (simp add: cache_sound_def)
  with shouldSendEvent_hit [OF Some] assms(1) show ?thesis by blast
qed

lemma dispatch_callbacks_sound:
  assumes "cache_sound vp tbs ev c" "payload ev \<noteq> None"
    and "\<forall>(cb, p) \<in> set subs. p \<notin> set Object_prototype_properties"
  shows "dispatch_callbacks vp tbs ev c subs =
           (map fst (filter (\<lambda>(cb, p). p \<noteq> [] \<and> pattern_matches vp tbs ev p) subs), None)"
  using assms
proof (induction subs arbitrary: c)
  case Nil then show ?case by simp
next
  case (Cons a subs)
  obtain cb p where a: "a = (cb, p)" by (cases a)
  show ?case
  proof (cases "p = []")
    case True
    with Cons a show ?thesis by simp
  next
    case False
    from Cons.prems a have "p \<notin> set Object_prototype_properties" by simp
    from shouldSendEvent_sound [OF Cons.prems(1) this Cons.prems(2)]
    obtain c' where c': "shouldSendEvent vp tbs p ev c = Inr (pattern_matches vp tbs ev p, c')"
      "cache_sound vp tbs ev c'" by blast
    from Cons.IH [OF c'(2) Cons.prems(2)] Cons.prems(3)
    have "dispatch_callbacks vp tbs ev c' subs =
           (map fst (filter (\<lambda>(cb, p). p \<noteq> [] \<and> pattern_matches vp tbs ev p) subs), None)"
      by simp
    with c'(1) False a show ?thesis by simp
  qed
qed

text \<open>
  For patterns that are not the name of a property inherited from \<open>Object.prototype\<close>,
  an event that is not a navigation event goes to the callbacks whose pattern is not
  empty and matches the current or the previous URL of the event's tab, in the order of
  subscription, and to no callback when the tab is unknown.
\<close>

lemma handleEvent_delivery:
  assumes "event_type ev \<notin> set navigation_types" "payload ev \<noteq> None"
    and "\<forall>(cb, p) \<in> set (patternsByCallback m). p \<notin> set Object_prototype_properties"
  shows "fst (snd (handleEvent vp uts m ev)) =
           map fst (filter (\<lambda>(cb, p). p \<noteq> [] \<and> pattern_matches vp (uts ev (tabs m)) ev p)
                      (patternsByCallback m))"
proof -
  have "cache_sound vp (uts ev (tabs m)) ev []" by (simp add: cache_sound_def)
  from dispatch_callbacks_sound [OF this assms(2), of "patternsByCallback m"] assms(1,3)
  show ?thesis by (simp add: handleEvent_def Let_def)
qed

text \<open>
  Claim C7. A subscription with the pattern \<open>constructor\<close> receives an event that is not
  a navigation event although no tab is known at all: the lookup in the fresh cache
  finds the inherited property and \<open>#shouldSendEvent\<close> returns it. This holds for every
  \<open>verifyPattern\<close>.
\<close>

theorem handleEvent_inherited_pattern_delivered:
  "fst (snd (handleEvent verifyPattern (\<lambda>event tbs. tbs)
      \<lparr>tabs = Map.empty, patternsByCallback = [(1, ''constructor'')],
        globalTabsAndNavigationCallbacks = []\<rparr>
      \<lparr>event_type = ''CLICK'', payload = Some \<lparr>tabId = Some 5\<rparr>\<rparr>)) = [1]"
  by (simp add: handleEvent_def navigation_types_def shouldSendEvent_def cache_get_def
      cache_truthy_def Object_prototype_properties_def Let_def)

section \<open>Properties of the telemetry sampler\<close>

text \<open>
  Claim C10. When the tracker has no performance file, or the file does not exist, and
  holds no sample in memory, \<open>stop\<close> returns no samples and no summary; it only clears
  the interval timer.
\<close>

theorem tracker_stop_without_samples:
  "(case performanceFile t of None \<Rightarrow> True | Some f \<Rightarrow> files f = None) \<Longrightarrow> samples t = [] \<Longrightarrow>
   tracker_stop unlink_ok (t, files) =
     (\<lparr>result_samples = [], result_summary = None\<rparr>, t\<lparr>interval := False\<rparr>, files)"
  by (auto simp: tracker_stop_def Let_def split: option.splits)

theorem tracker_stop_without_samples_witness:
  "(case performanceFile fresh_tracker of None \<Rightarrow> True | Some f \<Rightarrow> Map.empty f = None)
   \<and> samples fresh_tracker = []
   \<and> fst (tracker_stop True (fresh_tracker, Map.empty)) = \<lparr>result_samples = [], result_summary = None\<rparr>"
  using tracker_stop_without_samples [where t = fresh_tracker and files = Map.empty and unlink_ok = True] by (simp add: fresh_tracker_def)

text \<open>
  No tick changes the interval timer, and every tick records one sample with the
  reading of the system probe.
\<close>

lemma collectSample_interval: "interval (fst (collectSample h st)) = interval (fst st)"
  by (simp add: collectSample_def Let_def split_beta split: option.splits)

lemma run_ticks_interval: "interval (fst (run_ticks hs st)) = interval (fst st)"
  by (induction hs arbitrary: st) (simp_all add: collectSample_interval)

lemma collectSample_records:
  "\<exists>smp. samples (fst (collectSample h (t, files))) = samples t @ [smp]
        \<and> system smp = getSystemMetrics h
        \<and> process smp = getProcessMetrics h (tracker_pid t)
        \<and> network smp = fst (getNetworkMetrics h (lastNetworkStats t))"
  by (simp add: collectSample_def Let_def split_beta split: option.splits)

text \<open>
  A failure of \<open>pidusage\<close> is replaced by the zeroed process group, and an exception of
  \<open>os.networkInterfaces()\<close> by the zeroed network group.
\<close>

lemma process_failure_zeroed:
  "pidusage h = Inl err \<Longrightarrow>
   getProcessMetrics h self = \<lparr>cpu = 0, memory = 0, process_pid = self\<rparr>"
  by (simp add: getProcessMetrics_def)

lemma network_failure_zeroed:
  "os_networkInterfaces h = Inl err \<Longrightarrow>
   getNetworkMetrics h lastStats = (zero_network, lastStats)"
  by (simp add: getNetworkMetrics_def)

text \<open>
  Claim C8. The network probe fails on its reading of \<open>/proc/net/dev\<close>, one tick after a
  healthy tick. The sample of that tick is recorded with the readings of the system and
  process probes, but its network group is not the zeroed one: the byte counters are
  zero and the rates are computed against the reading of the tick before, which makes
  them negative.
\<close>

theorem collectSample_network_reading_failure_rates:
  "map (\<lambda>s. (network s, cpu (process s), totalMemory (system s)))
     (samples (fst (run_ticks
        [healthy_host,
         healthy_host\<lparr>clock := 11000, net_clock := 11001, net_counters := Inl ''ENOENT''\<rparr>]
        (fresh_tracker, Map.empty))))
   = [(\<lparr>bytesReceived = 700, bytesSent = 300, bytesReceivedPerSec = 0, bytesSentPerSec = 0,
        mbReceivedPerSec = 0, mbSentPerSec = 0\<rparr>, 25 / 2, 8000),
      (\<lparr>bytesReceived = 0, bytesSent = 0, bytesReceivedPerSec = - 140,
        bytesSentPerSec = - 60, mbReceivedPerSec = - (35 / 262144),
        mbSentPerSec = - (15 / 262144)\<rparr>, 25 / 2, 8000)]"
  by (simp add: collectSample_def getSystemMetrics_def getNetworkMetrics_def
      getProcessMetrics_def healthy_host_def fresh_tracker_def Let_def)

section \<open>Properties of the capture supervisor\<close>

lemma recording_world_eq:
  "recording_world =
     \<lparr>currentRecording =
        Some \<lparr>pid = 77,
              spawnargs = [''ffmpeg'', ''-y'', ''/w/tmp/recordings/temp-1704067200000.webm'']\<rparr>,
      outputPath = Some ''/w/tmp/recordings/recording-2024-01-01T00-00-00-000Z.webm'',
      recordingStartTime = Some 1704067200005,
      applicationTracker_active = True, applicationTracker_stops = 0,
      instances = [(''recording-2024-01-01T00-00-00-000Z_1'',
                    \<lparr>instance_directory = ''/w/tmp/recordings'', cli_events = 0\<rparr>)],
      disk = [''/w/tmp/recordings/temp-1704067200000.webm'' \<mapsto> 500], sleeps = []\<rparr>"
  by (simp add: recording_world_def startRecording_def idle_world_def default_options_def
      quick_host_def generateOutputPath_def path_join_def path_dirname_def last_segment_def
      logs_startNew_def instance_key_def applicationTracker_start_def Let_def)

text \<open>
  Claim C9. While a recording is active, \<open>startRecording\<close> fails with
  \<open>Recording already in progress\<close> and changes nothing.
\<close>

theorem startRecording_already_active:
  "currentRecording w \<noteq> None \<Longrightarrow> startRecording opts h w = (Inl AlreadyActive, w)"
  by (auto simp: startRecording_def)

theorem startRecording_already_active_witness:
  "currentRecording recording_world \<noteq> None
   \<and> startRecording default_options quick_host recording_world = (Inl AlreadyActive, recording_world)"
  using startRecording_already_active [of recording_world default_options quick_host]
  by (simp add: recording_world_eq)

text \<open>
  Claim C2. After \<open>stopRecording\<close> on an active recording, whatever its outcome, the
  recording handle and the start time are cleared, and the next \<open>startRecording\<close> does
  not fail with \<open>Recording already in progress\<close>.
\<close>

theorem stopRecording_clears_session:
  "currentRecording w \<noteq> None \<Longrightarrow>
   currentRecording (snd (stopRecording h w)) = None
   \<and> recordingStartTime (snd (stopRecording h w)) = None
   \<and> fst (startRecording opts sh (snd (stopRecording h w))) \<noteq> Inl AlreadyActive"
proof -
  assume "currentRecording w \<noteq> None"
  then have c: "currentRecording (snd (stopRecording h w)) = None"
    and t: "recordingStartTime (snd (stopRecording h w)) = None"
    by (auto simp: stopRecording_def applicationTracker_stop_def split: prod.splits sum.splits)
  have "fst (startRecording opts sh w') \<noteq> Inl AlreadyActive" if "currentRecording w' = None" for w'
    using that
    by (auto simp: startRecording_def generateOutputPath_def Let_def
        split: option.splits sum.splits)
  with c t show ?thesis by blast
qed

subsection \<open>The finalization loop\<close>

lemma loop_3: "finalize_loop fin out 3 success st = (Inr success, st)"
  by (simp add: finalize_loop.simps [of fin out 3] attempts_def)

lemma loop_step:
  "i < 3 \<Longrightarrow> finalize_loop fin out i False (d, sl) =
     (case fin i of
        Threw msg \<Rightarrow>
          if i = 2 then (Inl (Thrown msg), d, sl @ [(i + 1) * 2000])
          else finalize_loop fin out (i + 1) False (d, sl @ [(i + 1) * 2000])
      | Exited exitCode file \<Rightarrow>
          if attempt_succeeds (Exited exitCode file)
          then (Inr True, d(out := file), sl @ [(i + 1) * 2000])
          else finalize_loop fin out (i + 1) False (d(out := file), sl @ [(i + 1) * 2000]))"
  by (subst finalize_loop.simps)
     (auto simp: attempts_def attempt_succeeds_def Let_def split: attempt.splits option.splits)

lemma first_success_unfold:
  "first_success fin =
     (if attempt_succeeds (fin 0) then Some 0
      else if attempt_succeeds (fin 1) then Some 1
      else if attempt_succeeds (fin 2) then Some 2 else None)"
proof -
  have "[0..<attempts] = [0, 1, 2]" by (simp add: attempts_def upt_rec)
  then show ?thesis by (simp add: first_success_def)
qed

lemma first_success_Some:
  "first_success fin = Some k \<Longrightarrow>
   k < attempts \<and> attempt_succeeds (fin k) \<and> (\<forall>j<k. \<not> attempt_succeeds (fin j))"
  by (auto simp: first_success_def find_Some_iff)

lemma first_success_None:
  "first_success fin = None \<Longrightarrow> \<forall>j<attempts. \<not> attempt_succeeds (fin j)"
  by (auto simp: first_success_def find_None_iff)

lemma attempt_succeeds_file:
  "attempt_succeeds (Exited c f) \<Longrightarrow> \<exists>bytes>0. f = Some bytes"
  by (auto simp: attempt_succeeds_def split: option.splits)

lemma attempt_succeeds_Threw: "\<not> attempt_succeeds (Threw msg)"
  by (simp add: attempt_succeeds_def)

lemma loop_at2:
  "finalize_loop fin out 2 False (d, sl) =
     (case fin 2 of
        Threw msg \<Rightarrow> (Inl (Thrown msg), d, sl @ [6000])
      | Exited c f \<Rightarrow>
          (Inr (attempt_succeeds (Exited c f)), d(out := f), sl @ [6000]))"
  using loop_step [of 2 fin out d sl] by (simp add: loop_3 split: attempt.splits)

lemma loop_at1:
  "finalize_loop fin out (Suc 0) False (d, sl) =
     (case fin (Suc 0) of
        Threw msg \<Rightarrow> finalize_loop fin out 2 False (d, sl @ [4000])
      | Exited c f \<Rightarrow>
          if attempt_succeeds (Exited c f) then (Inr True, d(out := f), sl @ [4000])
          else finalize_loop fin out 2 False (d(out := f), sl @ [4000]))"
  using loop_step [of "Suc 0" fin out d sl] by (simp add: numeral_2_eq_2 split: attempt.splits)

lemma loop_at0:
  "finalize_loop fin out 0 False (d, sl) =
     (case fin 0 of
        Threw msg \<Rightarrow> finalize_loop fin out (Suc 0) False (d, sl @ [2000])
      | Exited c f \<Rightarrow>
          if attempt_succeeds (Exited c f) then (Inr True, d(out := f), sl @ [2000])
          else finalize_loop fin out (Suc 0) False (d(out := f), sl @ [2000]))"
  using loop_step [of 0 fin out d sl] by (simp split: attempt.splits)

lemma finalize_loop_char:
  "case finalize_loop fin out 0 False (d, sl) of (r, d', sl') \<Rightarrow>
     (\<forall>p. p \<noteq> out \<longrightarrow> d' p = d p) \<and>
     (case first_success fin of
        Some k \<Rightarrow> r = Inr True \<and> sl' = sl @ map (\<lambda>j. (j + 1) * 2000) [0..<Suc k]
                  \<and> (\<exists>bytes>0. d' out = Some bytes)
      | None \<Rightarrow> r = (case fin 2 of Threw msg \<Rightarrow> Inl (Thrown msg) | Exited c f \<Rightarrow> Inr False)
                  \<and> sl' = sl @ [2000, 4000, 6000])"
proof -
  have u: "[0..<Suc 0] = [0]" "[0..<Suc (Suc 0)] = [0, Suc 0]" "[0..<3] = [0, Suc 0, 2]"
    by (simp_all add: upt_rec)
  show ?thesis
    by (cases "fin 0"; cases "fin (Suc 0)"; cases "fin 2")
       (auto simp: loop_at0 loop_at1 loop_at2 first_success_unfold attempt_succeeds_Threw u
          dest: attempt_succeeds_file)
qed

text \<open>
  What \<open>stopRecording\<close> does from the finalization on, for a recording with a non-empty
  temporary file that differs from the output path. If \<open>k\<close> is the first attempt that
  succeeds, the call has waited before the attempts \<open>0..k\<close> and made no further one, the
  temporary file is deleted unless \<open>unlinkSync\<close> throws, and a result is returned exactly
  when both previews are made. If no attempt succeeds, the call fails and the temporary
  file is kept.
\<close>

lemma stop_after_finalization:
  assumes "currentRecording w = Some running" and "spawnargs running \<noteq> []"
    and "disk w (last (spawnargs running)) = Some n" and "0 < n"
    and "outputPath w = Some out" and "out \<noteq> last (spawnargs running)"
  shows "case stopRecording h w of (r, w') \<Rightarrow>
     (case first_success (finalize h) of
        Some k \<Rightarrow>
          k < attempts \<and> attempt_succeeds (finalize h k)
          \<and> (\<forall>j<k. \<not> attempt_succeeds (finalize h j))
          \<and> sleeps w' = sleeps w @ [1000] @ map (\<lambda>j. (j + 1) * 2000) [0..<Suc k]
          \<and> disk w' (last (spawnargs running)) =
              (case unlinkSync h of Inr u \<Rightarrow> None | Inl msg \<Rightarrow> Some n)
          \<and> ((\<exists>result. r = Inr result) \<longleftrightarrow> createGif h = Inr () \<and> createSnapshot h = Inr ())
      | None \<Rightarrow>
          (\<forall>j<attempts. \<not> attempt_succeeds (finalize h j))
          \<and> sleeps w' = sleeps w @ [1000, 2000, 4000, 6000]
          \<and> r = Inl (case finalize h 2 of Threw msg \<Rightarrow> Thrown msg
                                         | Exited c f \<Rightarrow> FinalizationFailed)
          \<and> disk w' (last (spawnargs running)) = Some n)"
proof -
  let ?t = "last (spawnargs running)"
  obtain r0 d' sl' where
    L: "finalize_loop (finalize h) out 0 False (disk w, sleeps w @ [1000]) = (r0, d', sl')"
    by (cases "finalize_loop (finalize h) out 0 False (disk w, sleeps w @ [1000])")
  from finalize_loop_char [where fin = "finalize h" and out = out and d = "disk w"
      and sl = "sleeps w @ [1000]"] L
  have keep: "\<forall>p. p \<noteq> out \<longrightarrow> d' p = disk w p"
    and ch: "case first_success (finalize h) of
        Some k \<Rightarrow> r0 = Inr True \<and> sl' = (sleeps w @ [1000]) @ map (\<lambda>j. (j + 1) * 2000) [0..<Suc k]
                  \<and> (\<exists>bytes>0. d' out = Some bytes)
      | None \<Rightarrow> r0 = (case finalize h 2 of Threw msg \<Rightarrow> Inl (Thrown msg)
                                          | Exited c f \<Rightarrow> Inr False)
                  \<and> sl' = (sleeps w @ [1000]) @ [2000, 4000, 6000]"
    by simp_all
  from keep assms(3,6) have dt: "d' ?t = Some n" by simp
  show ?thesis
  proof (cases "first_success (finalize h)")
    case None
    with ch have r0: "r0 = (case finalize h 2 of Threw msg \<Rightarrow> Inl (Thrown msg)
                                               | Exited c f \<Rightarrow> Inr False)"
      and sl': "sl' = sleeps w @ [1000, 2000, 4000, 6000]" by simp_all
    from assms L r0 sl' dt None first_success_None [OF None] show ?thesis
      by (simp add: stopRecording_def stop_try_def Let_def applicationTracker_stop_def
          split: attempt.splits)
  next
    case (Some k)
    with ch obtain bytes where r0: "r0 = Inr True"
      and sl': "sl' = sleeps w @ [1000] @ map (\<lambda>j. (j + 1) * 2000) [0..<Suc k]"
      and dout: "d' out = Some bytes" by auto
    from assms L r0 sl' dt dout Some first_success_Some [OF Some] show ?thesis
      by (simp add: stopRecording_def stop_try_def Let_def applicationTracker_stop_def
          split_beta split: sum.splits)
  qed
qed

lemmas recorder_eval =
  stopRecording_def stop_try_def loop_at0 loop_at1 loop_at2 attempt_succeeds_def
  applicationTracker_stop_def logs_stop_def instance_key_def path_basename_def base_path_def
  cli_status_def path_join_def Let_def

text \<open>
  Claim C3. Let a recording be active with a non-empty temporary file that differs from
  the output path, on a host where deleting the temporary file and making the two
  previews succeed. Finalization is attempted at most 3 times, after waits of 2000, 4000
  and 6000 ms; an attempt succeeds exactly when the subprocess exits with code 0 and the
  output file exists and is not empty. If \<open>k\<close> is the first attempt that succeeds, no
  further attempt is made, \<open>stopRecording\<close> returns a result and the temporary file is
  deleted. If all 3 attempts fail, \<open>stopRecording\<close> fails with the error of the
  finalization (\<open>Failed to finalize recording after all attempts\<close>, or the exception of
  the third attempt when that attempt itself threw) and the temporary file is kept.
\<close>

theorem finalization_retry:
  assumes "currentRecording w = Some running" and "spawnargs running \<noteq> []"
    and "disk w (last (spawnargs running)) = Some n" and "0 < n"
    and "outputPath w = Some out" and "out \<noteq> last (spawnargs running)"
    and "unlinkSync h = Inr ()" and "createGif h = Inr ()" and "createSnapshot h = Inr ()"
  shows "case stopRecording h w of (r, w') \<Rightarrow>
     (case first_success (finalize h) of
        Some k \<Rightarrow>
          k < attempts \<and> attempt_succeeds (finalize h k)
          \<and> (\<forall>j<k. \<not> attempt_succeeds (finalize h j))
          \<and> sleeps w' = sleeps w @ [1000] @ map (\<lambda>j. (j + 1) * 2000) [0..<Suc k]
          \<and> (\<exists>result. r = Inr result)
          \<and> disk w' (last (spawnargs running)) = None
      | None \<Rightarrow>
          (\<forall>j<attempts. \<not> attempt_succeeds (finalize h j))
          \<and> sleeps w' = sleeps w @ [1000, 2000, 4000, 6000]
          \<and> r = Inl (case finalize h 2 of Threw msg \<Rightarrow> Thrown msg
                                         | Exited c f \<Rightarrow> FinalizationFailed)
          \<and> disk w' (last (spawnargs running)) = Some n)"
  using stop_after_finalization [OF assms(1-6), of h] assms(7-9)
  by (simp split: prod.splits option.splits)

theorem finalization_retry_witness:
  "currentRecording recording_world =
     Some \<lparr>pid = 77,
           spawnargs = [''ffmpeg'', ''-y'', ''/w/tmp/recordings/temp-1704067200000.webm'']\<rparr>
   \<and> disk recording_world ''/w/tmp/recordings/temp-1704067200000.webm'' = Some 500
   \<and> outputPath recording_world =
       Some ''/w/tmp/recordings/recording-2024-01-01T00-00-00-000Z.webm''
   \<and> unlinkSync late_stop = Inr () \<and> createGif late_stop = Inr ()
   \<and> createSnapshot late_stop = Inr ()
   \<and> first_success (finalize late_stop) = Some 2
   \<and> (\<exists>result. fst (stopRecording late_stop recording_world) = Inr result)
   \<and> sleeps (snd (stopRecording late_stop recording_world)) = [1000, 2000, 4000, 6000]
   \<and> disk (snd (stopRecording late_stop recording_world))
        ''/w/tmp/recordings/temp-1704067200000.webm'' = None
   \<and> first_success (finalize failing_stop) = None
   \<and> fst (stopRecording failing_stop recording_world) = Inl FinalizationFailed
   \<and> sleeps (snd (stopRecording failing_stop recording_world)) = [1000, 2000, 4000, 6000]
   \<and> disk (snd (stopRecording failing_stop recording_world))
        ''/w/tmp/recordings/temp-1704067200000.webm'' = Some 500"
  using finalization_retry [where w = recording_world and h = late_stop and n = 500
      and running = "\<lparr>pid = 77,
           spawnargs = [''ffmpeg'', ''-y'', ''/w/tmp/recordings/temp-1704067200000.webm'']\<rparr>"
      and out = "''/w/tmp/recordings/recording-2024-01-01T00-00-00-000Z.webm''"]
    finalization_retry [where w = recording_world and h = failing_stop and n = 500
      and running = "\<lparr>pid = 77,
           spawnargs = [''ffmpeg'', ''-y'', ''/w/tmp/recordings/temp-1704067200000.webm'']\<rparr>"
      and out = "''/w/tmp/recordings/recording-2024-01-01T00-00-00-000Z.webm''"]
  by (simp add: recording_world_eq late_stop_def failing_stop_def third_finalizes_def
      never_finalizes_def first_success_unfold attempt_succeeds_def upt_rec split_beta)

theorem stopRecording_clears_session_witness:
  "currentRecording recording_world \<noteq> None
   \<and> currentRecording (snd (stopRecording failing_stop recording_world)) = None
   \<and> recordingStartTime (snd (stopRecording failing_stop recording_world)) = None
   \<and> (\<exists>started. fst (startRecording default_options quick_host
                      (snd (stopRecording failing_stop recording_world))) = Inr started)"
  using stopRecording_clears_session [of recording_world failing_stop default_options quick_host]
  by (simp add: recording_world_eq failing_stop_def never_finalizes_def recorder_eval
      startRecording_def default_options_def quick_host_def generateOutputPath_def)

text \<open>
  Claim C1. When all three finalization attempts fail, \<open>stopRecording\<close> fails after
  one call of \<open>applicationTracker.stop()\<close>, and the instance of the logs tracker manager
  is still registered: the \<open>catch\<close> block does not call \<open>logsTrackerManager.stop\<close>. On
  the successful path from the same world the instance is removed.
\<close>

theorem stopRecording_failure_keeps_log_tracking:
  "fst (stopRecording failing_stop recording_world) = Inl FinalizationFailed
   \<and> applicationTracker_stops (snd (stopRecording failing_stop recording_world)) = 1
   \<and> instances (snd (stopRecording failing_stop recording_world)) =
       [(''recording-2024-01-01T00-00-00-000Z_1'',
         \<lparr>instance_directory = ''/w/tmp/recordings'', cli_events = 0\<rparr>)]
   \<and> instances (snd (stopRecording late_stop recording_world)) = []"
  by (simp add: recording_world_eq failing_stop_def never_finalizes_def late_stop_def
      third_finalizes_def recorder_eval)

text \<open>
  With a custom output path the identifier that \<open>stopRecording\<close> derives from the path
  differs from the one \<open>startRecording\<close> registered, so even a successful stop leaves
  the instance registered and returns no log results.
\<close>

lemma stopRecording_custom_path_keeps_log_tracking:
  "(let w = snd (startRecording (default_options\<lparr>customOutputPath := Some ''/v/demo.webm''\<rparr>)
                   quick_host idle_world);
        r = stopRecording late_stop (w\<lparr>disk := (disk w)(''/v/temp-1704067200000.webm'' \<mapsto> 500)\<rparr>)
    in (map_sum id logs (fst r), map fst (instances (snd r))))
   = (Inr [], [''recording-2024-01-01T00-00-00-000Z_1''])"
  by (simp add: startRecording_def idle_world_def default_options_def quick_host_def
      generateOutputPath_def path_dirname_def last_segment_def logs_startNew_def
      applicationTracker_start_def late_stop_def third_finalizes_def recorder_eval)

end
